theory Spec2Isabelle
  imports Main "HOL-Library.Word"
begin

section \<open>Values of the host language\<close>

text \<open>
  The handlers are TypeScript running on an untyped request body, so the values they
  branch on are JavaScript values. Number literals of a JSON body are kept as integers:
  the handlers only ever test a number for being zero.
\<close>

datatype jsval =
    Undefined
  | Null
  | Bool bool
  | Num int
  | Str string
  | Arr "jsval list"
  | Obj "(string \<times> jsval) list"

text \<open>What \<open>if (v)\<close> and \<open>!v\<close> test.\<close>

fun truthy :: "jsval \<Rightarrow> bool" where
  "truthy Undefined = False"
| "truthy Null = False"
| "truthy (Bool b) = b"
| "truthy (Num n) = (n \<noteq> 0)"
| "truthy (Str s) = (s \<noteq> [])"
| "truthy (Arr xs) = True"
| "truthy (Obj kvs) = True"

text \<open>
  \<open>req.body\<close> after \<open>express.json()\<close> is a parsed JSON object: its own properties, by
  name. Reading a property that is not there gives \<open>undefined\<close>.
\<close>

type_synonym body = "(string \<times> jsval) list"

definition field :: "body \<Rightarrow> string \<Rightarrow> jsval" where
  "field b k = (case map_of b k of None \<Rightarrow> Undefined | Some v \<Rightarrow> v)"

text \<open>A destructuring default, \<open>const { k = d } = obj\<close>: used only for \<open>undefined\<close>.\<close>

definition with_default :: "jsval \<Rightarrow> jsval \<Rightarrow> jsval" where
  "with_default d v = (if v = Undefined then d else v)"

text \<open>
  A thrown value, or the reason of a rejected promise: an \<open>Error\<close> instance with its
  message, or any other value (the speech SDK hands its error callback a string).
\<close>

datatype thrown = ErrorObj string | Thrown jsval

text \<open>\<open>error instanceof Error ? error.message : "Unknown error"\<close>\<close>

definition details :: "thrown \<Rightarrow> string" where
  "details e = (case e of ErrorObj m \<Rightarrow> m | Thrown v \<Rightarrow> ''Unknown error'')"

text \<open>Reading property \<open>p\<close> of \<open>undefined\<close> throws a \<open>TypeError\<close> (the engine's wording).\<close>

definition type_error :: "string \<Rightarrow> thrown" where
  "type_error p = ErrorObj (''Cannot read properties of undefined (reading '' @ [CHR 0x27] @ p @ [CHR 0x27] @ '')'')"

type_synonym byte = "8 word"

section \<open>The response object and the effects of a handler\<close>

record response =
  statusCode :: nat
  headers :: "string \<rightharpoonup> string"
  headersSent :: bool
  written :: "byte list"
  json :: "(string \<times> jsval) list option"
  finished :: bool

record speech_config =
  subscriptionKey :: jsval
  region :: jsval
  speechSynthesisVoiceName :: jsval

text \<open>Every call a handler makes on a provider or on the response, in program order.\<close>

datatype effect =
    ChatCompletionsCreate jsval string
  | ImagesGenerate string string nat string
  | FromSubscription jsval jsval
  | NewSpeechSynthesizer speech_config
  | SpeakTextAsync jsval
  | SynthesizerClose
  | ResStatus nat
  | ResSet "(string \<times> string) list"
  | ResWrite "byte list"
  | ResEnd
  | ResJson "(string \<times> jsval) list"

record state =
  res :: response
  trace :: "effect list"

definition new_response :: response where
  "new_response = \<lparr>statusCode = 200, headers = Map.empty, headersSent = False,
                    written = [], json = None, finished = False\<rparr>"

definition start :: state where
  "start = \<lparr>res = new_response, trace = []\<rparr>"

definition call :: "effect \<Rightarrow> state \<Rightarrow> state" where
  "call e s = s\<lparr>trace := trace s @ [e]\<rparr>"

definition res_status :: "nat \<Rightarrow> state \<Rightarrow> state" where
  "res_status n s = call (ResStatus n) (s\<lparr>res := (res s)\<lparr>statusCode := n\<rparr>\<rparr>)"

definition res_json :: "(string \<times> jsval) list \<Rightarrow> state \<Rightarrow> state" where
  "res_json obj s =
     call (ResJson obj) (s\<lparr>res := (res s)\<lparr>json := Some obj, headersSent := True, finished := True\<rparr>\<rparr>)"

definition res_set :: "(string \<times> string) list \<Rightarrow> state \<Rightarrow> state" where
  "res_set hs s =
     call (ResSet hs) (s\<lparr>res := (res s)\<lparr>headers := fold (\<lambda>(k, v) m. m(k \<mapsto> v)) hs (headers (res s))\<rparr>\<rparr>)"

definition res_write :: "byte list \<Rightarrow> state \<Rightarrow> state" where
  "res_write bs s =
     call (ResWrite bs) (s\<lparr>res := (res s)\<lparr>written := written (res s) @ bs, headersSent := True\<rparr>\<rparr>)"

definition res_end :: "state \<Rightarrow> state" where
  "res_end s = call ResEnd (s\<lparr>res := (res s)\<lparr>headersSent := True, finished := True\<rparr>\<rparr>)"

section \<open>The providers\<close>

text \<open>
  The provider SDKs are outside the repository: a handler is a function of what they
  answer. A call either throws (or rejects) with a value, or returns.
\<close>

record chat_message =
  content :: "string option"

record choice =
  message :: chat_message

record chat_completion =
  choices :: "choice list"
  usage :: jsval

record image =
  url :: jsval

record images_response =
  data :: "image list"

record openai_client =
  chat_completions_create :: "jsval \<Rightarrow> string \<Rightarrow> thrown + chat_completion"
  images_generate :: "string \<Rightarrow> string \<Rightarrow> nat \<Rightarrow> string \<Rightarrow> thrown + images_response"

record synthesis_result =
  audioData :: "byte list option"

text \<open>
  \<open>speakTextAsync\<close> ends by calling one of its two callbacks: the first with a result
  (which may be missing, or carry no audio), the second with an error string.
\<close>

datatype synth_outcome = Completed "synthesis_result option" | Failed string

record speech_sdk =
  fromSubscription :: "jsval \<Rightarrow> jsval \<Rightarrow> thrown + speech_config"
  speakTextAsync :: "speech_config \<Rightarrow> jsval \<Rightarrow> synth_outcome"

record process_env =
  AZURE_SPEECH_KEY :: jsval
  AZURE_SPEECH_REGION :: jsval

text \<open>How the promise returned by an \<open>async\<close> handler settles.\<close>

datatype settled = Fulfilled | Rejected thrown

section \<open>POST /api/completion\<close>

text \<open>\<open>completion.choices[0].message.content\<close>: no first choice, no \<open>message\<close> to read.\<close>

definition first_choice_content :: "chat_completion \<Rightarrow> thrown + string option" where
  "first_choice_content c =
     (case choices c of [] \<Rightarrow> Inl (type_error ''message'') | ch # _ \<Rightarrow> Inr (content (message ch)))"

text \<open>\<open>imageResponse.data[0].url\<close>\<close>

definition first_image_url :: "images_response \<Rightarrow> thrown + jsval" where
  "first_image_url r =
     (case data r of [] \<Rightarrow> Inl (type_error ''url'') | im # _ \<Rightarrow> Inr (url im))"

text \<open>The generated text as a value of the response object: a string or \<open>null\<close>.\<close>

definition text_value :: "string option \<Rightarrow> jsval" where
  "text_value t = (case t of None \<Rightarrow> Null | Some s \<Rightarrow> Str s)"

text \<open>\<open>textResponse || ""\<close>\<close>

definition prompt_of :: "string option \<Rightarrow> string" where
  "prompt_of t = (case t of None \<Rightarrow> '''' | Some s \<Rightarrow> (if s \<noteq> [] then s else ''''))"

text \<open>The \<open>catch\<close> block shared by both completion handlers.\<close>

definition completion_catch :: "thrown \<Rightarrow> state \<Rightarrow> state" where
  "completion_catch e s =
     res_json [(''error'', Str ''Error processing your request''), (''details'', Str (details e))]
       (res_status 500 s)"

text \<open>The inner \<open>catch (imageError)\<close>: the text is still returned.\<close>

definition image_catch :: "string option \<Rightarrow> jsval \<Rightarrow> state \<Rightarrow> state" where
  "image_catch textResponse u s =
     res_json [(''message'', text_value textResponse), (''error'', Str ''Image generation failed''),
               (''usage'', u)] s"

text \<open>The handler of \<open>src/unnamed/part_000\<close>, with image generation.\<close>

definition handle_completion :: "openai_client \<Rightarrow> body \<Rightarrow> state" where
  "handle_completion openai b =
     (let messages = field b ''messages'';
          generateImage = with_default (Bool False) (field b ''generateImage'');
          s1 = call (ChatCompletionsCreate messages ''gpt-3.5-turbo'') start
      in case chat_completions_create openai messages ''gpt-3.5-turbo'' of
           Inl e \<Rightarrow> completion_catch e s1
         | Inr completion \<Rightarrow>
             (case first_choice_content completion of
                Inl e \<Rightarrow> completion_catch e s1
              | Inr textResponse \<Rightarrow>
                  if truthy generateImage then
                    (let s2 = call (ImagesGenerate ''dall-e-3'' (prompt_of textResponse) 1 ''1024x1024'') s1
                     in case images_generate openai ''dall-e-3'' (prompt_of textResponse) 1 ''1024x1024'' of
                          Inl imageError \<Rightarrow> image_catch textResponse (usage completion) s2
                        | Inr imageResponse \<Rightarrow>
                            (case first_image_url imageResponse of
                               Inl imageError \<Rightarrow> image_catch textResponse (usage completion) s2
                             | Inr u \<Rightarrow>
                                 res_json [(''message'', text_value textResponse), (''image'', u),
                                           (''usage'', usage completion)] s2))
                  else
                    res_json [(''message'', text_value textResponse), (''usage'', usage completion)] s1))"

text \<open>The handler of \<open>src/src/index.ts\<close>, text only.\<close>

definition handle_completion_index :: "openai_client \<Rightarrow> body \<Rightarrow> state" where
  "handle_completion_index openai b =
     (let messages = field b ''messages'';
          s1 = call (ChatCompletionsCreate messages ''gpt-3.5-turbo'') start
      in case chat_completions_create openai messages ''gpt-3.5-turbo'' of
           Inl e \<Rightarrow> completion_catch e s1
         | Inr completion \<Rightarrow>
             (case first_choice_content completion of
                Inl e \<Rightarrow> completion_catch e s1
              | Inr t \<Rightarrow> res_json [(''message'', text_value t), (''usage'', usage completion)] s1))"

section \<open>POST /api/tts\<close>

text \<open>The \<open>catch\<close> block of the handler: an envelope only while nothing has been sent.\<close>

definition tts_catch :: "thrown \<Rightarrow> state \<Rightarrow> state" where
  "tts_catch e s =
     (if \<not> headersSent (res s) then
        res_json [(''error'', Str ''Error processing your request''), (''details'', Str (details e))]
          (res_status 500 s)
      else s)"

text \<open>
  The two callbacks handed to \<open>speakTextAsync\<close>. Each settles the promise built around
  the call: \<open>resolve()\<close> after the audio is out, \<open>reject\<close> otherwise.
\<close>

definition on_result :: "synthesis_result option \<Rightarrow> state \<Rightarrow> state \<times> settled" where
  "on_result result s =
     (case result of
        None \<Rightarrow> (s, Rejected (ErrorObj ''No audio data generated''))
      | Some r \<Rightarrow>
          (case audioData r of
             None \<Rightarrow> (s, Rejected (ErrorObj ''No audio data generated''))
           | Some bs \<Rightarrow> (call SynthesizerClose (res_end (res_write bs s)), Fulfilled)))"

definition on_error :: "string \<Rightarrow> state \<Rightarrow> state \<times> settled" where
  "on_error err s = (s, Rejected (Thrown (Str err)))"

text \<open>
  The handler. Its \<open>try\<close> block ends in \<open>return new Promise(...)\<close>: the promise is handed
  back without being awaited, so the block is left before the promise settles, and the
  handler's own promise settles as that one does. The \<open>catch\<close> block sees what is thrown
  while the block runs, which is the set-up of the session.
\<close>

definition handle_tts :: "speech_sdk \<Rightarrow> process_env \<Rightarrow> body \<Rightarrow> state \<times> settled" where
  "handle_tts sdk env b =
     (let text = field b ''text'';
          voice = with_default (Str ''en-US-JennyMultilingualNeural'') (field b ''voice'')
      in if \<not> truthy text then
           (res_json [(''error'', Str ''Text is required'')] (res_status 400 start), Fulfilled)
         else
           (let s1 = call (FromSubscription (AZURE_SPEECH_KEY env) (AZURE_SPEECH_REGION env)) start
            in case fromSubscription sdk (AZURE_SPEECH_KEY env) (AZURE_SPEECH_REGION env) of
                 Inl e \<Rightarrow> (tts_catch e s1, Fulfilled)
               | Inr config \<Rightarrow>
                   (let speechConfig = config\<lparr>speechSynthesisVoiceName := voice\<rparr>;
                        s2 = res_set [(''Content-Type'', ''audio/wav''),
                                      (''Transfer-Encoding'', ''chunked'')] s1;
                        s3 = call (NewSpeechSynthesizer speechConfig) s2;
                        s4 = call (SpeakTextAsync text) s3
                    in case speakTextAsync sdk speechConfig text of
                         Completed result \<Rightarrow> on_result result s4
                       | Failed err \<Rightarrow> on_error err s4)))"

text \<open>Which effects are calls on the speech provider.\<close>

fun speech_call :: "effect \<Rightarrow> bool" where
  "speech_call (FromSubscription k r) = True"
| "speech_call (NewSpeechSynthesizer c) = True"
| "speech_call (SpeakTextAsync t) = True"
| "speech_call SynthesizerClose = True"
| "speech_call e = False"

fun image_call :: "effect \<Rightarrow> bool" where
  "image_call (ImagesGenerate m p n sz) = True"
| "image_call e = False"

section \<open>Stub providers and sample requests\<close>

text \<open>Concrete providers and bodies on which the handlers are run below.\<close>

definition sample_env :: process_env where
  "sample_env = \<lparr>AZURE_SPEECH_KEY = Str ''key'', AZURE_SPEECH_REGION = Str ''westeurope''\<rparr>"

definition sample_config :: "jsval \<Rightarrow> jsval \<Rightarrow> speech_config" where
  "sample_config k r = \<lparr>subscriptionKey = k, region = r, speechSynthesisVoiceName = Undefined\<rparr>"

definition stub_speech :: "synth_outcome \<Rightarrow> speech_sdk" where
  "stub_speech out = \<lparr>fromSubscription = (\<lambda>k r. Inr (sample_config k r)),
                       speakTextAsync = (\<lambda>c t. out)\<rparr>"

definition stub_audio :: "byte list" where
  "stub_audio = [0x52, 0x49, 0x46, 0x46]"

definition sample_usage :: jsval where
  "sample_usage = Obj [(''total_tokens'', Num 7)]"

definition sample_completion :: chat_completion where
  "sample_completion = \<lparr>choices = [\<lparr>message = \<lparr>content = Some ''a cat''\<rparr>\<rparr>], usage = sample_usage\<rparr>"

definition stub_openai :: "(thrown + chat_completion) \<Rightarrow> (thrown + images_response) \<Rightarrow> openai_client" where
  "stub_openai c i = \<lparr>chat_completions_create = (\<lambda>ms m. c),
                       images_generate = (\<lambda>m p n sz. i)\<rparr>"

definition sample_messages :: jsval where
  "sample_messages = Arr [Obj [(''role'', Str ''user''), (''content'', Str ''hello'')]]"

definition text_request :: body where
  "text_request = [(''messages'', sample_messages)]"

definition image_request :: body where
  "image_request = [(''messages'', sample_messages), (''generateImage'', Bool True)]"

definition tts_request :: body where
  "tts_request = [(''text'', Str ''hi'')]"

definition tts_request_voice :: body where
  "tts_request_voice = [(''text'', Str ''hi''), (''voice'', Str ''pt-BR-FranciscaNeural'')]"

definition no_choices :: chat_completion where
  "no_choices = \<lparr>choices = [], usage = sample_usage\<rparr>"

definition sample_image :: image where
  "sample_image = \<lparr>url = Str ''https://img.example/1.png''\<rparr>"

lemmas ops = res_json_def res_status_def res_set_def res_write_def res_end_def call_def
  start_def new_response_def

lemmas stubs = stub_speech_def stub_openai_def sample_env_def sample_config_def
  sample_completion_def no_choices_def sample_image_def text_request_def image_request_def
  tts_request_def tts_request_voice_def field_def with_default_def

section \<open>Validation of the speech request\<close>

text \<open>
  C5. A request to the speech route whose \<open>text\<close> field is missing or is the empty string
  is answered with status 400 and the body \<open>{error: "Text is required"}\<close>; the handler
  returns normally and no call on the speech provider has been made.
\<close>

theorem tts_text_required:
  assumes "field b ''text'' = Undefined \<or> field b ''text'' = Str []"
  shows "statusCode (res (fst (handle_tts sdk env b))) = 400
       \<and> json (res (fst (handle_tts sdk env b))) = Some [(''error'', Str ''Text is required'')]
       \<and> finished (res (fst (handle_tts sdk env b)))
       \<and> filter speech_call (trace (fst (handle_tts sdk env b))) = []
       \<and> snd (handle_tts sdk env b) = Fulfilled"
  using assms
  by (auto simp: handle_tts_def Let_def ops)

theorem tts_text_required_witness:
  "(field [(''voice'', Str ''v'')] ''text'' = Undefined \<or> field [(''voice'', Str ''v'')] ''text'' = Str [])
   \<and> statusCode (res (fst (handle_tts (stub_speech (Failed ''unused'')) sample_env [(''voice'', Str ''v'')]))) = 400
   \<and> filter speech_call (trace (fst (handle_tts (stub_speech (Failed ''unused'')) sample_env [(''voice'', Str ''v'')]))) = []"
proof -
  have h: "field [(''voice'', Str ''v'')] ''text'' = Undefined \<or> field [(''voice'', Str ''v'')] ''text'' = Str []"
    by (simp add: field_def)
  show ?thesis
    using h tts_text_required [OF h, of "stub_speech (Failed ''unused'')" sample_env] by simp
qed

section \<open>The completion route\<close>

text \<open>
  C3. When the chat-completion call fails, the completion handler answers with status 500
  and a body made of exactly the fields \<open>error\<close> and \<open>details\<close> (so no message, usage or
  image), and the image provider has not been called, whatever the request says about
  \<open>generateImage\<close>.
\<close>

theorem completion_chat_failure:
  assumes "chat_completions_create openai (field b ''messages'') ''gpt-3.5-turbo'' = Inl e"
  shows "statusCode (res (handle_completion openai b)) = 500
       \<and> json (res (handle_completion openai b)) =
           Some [(''error'', Str ''Error processing your request''), (''details'', Str (details e))]
       \<and> filter image_call (trace (handle_completion openai b)) = []"
  using assms
  by (simp add: handle_completion_def Let_def completion_catch_def ops)

theorem completion_chat_failure_witness:
  "chat_completions_create (stub_openai (Inl (ErrorObj ''quota exceeded'')) (Inr \<lparr>data = [sample_image]\<rparr>))
     (field image_request ''messages'') ''gpt-3.5-turbo'' = Inl (ErrorObj ''quota exceeded'')
   \<and> statusCode (res (handle_completion
        (stub_openai (Inl (ErrorObj ''quota exceeded'')) (Inr \<lparr>data = [sample_image]\<rparr>)) image_request)) = 500
   \<and> json (res (handle_completion
        (stub_openai (Inl (ErrorObj ''quota exceeded'')) (Inr \<lparr>data = [sample_image]\<rparr>)) image_request)) =
       Some [(''error'', Str ''Error processing your request''), (''details'', Str ''quota exceeded'')]
   \<and> filter image_call (trace (handle_completion
        (stub_openai (Inl (ErrorObj ''quota exceeded'')) (Inr \<lparr>data = [sample_image]\<rparr>)) image_request)) = []"
proof -
  let ?api = "stub_openai (Inl (ErrorObj ''quota exceeded'')) (Inr \<lparr>data = [sample_image]\<rparr>)"
  have h: "chat_completions_create ?api (field image_request ''messages'') ''gpt-3.5-turbo''
             = Inl (ErrorObj ''quota exceeded'')"
    by (simp add: stub_openai_def)
  show ?thesis
    using h completion_chat_failure [OF h] by (simp add: details_def)
qed

text \<open>
  C2. With \<open>generateImage\<close> true and a chat call that succeeded, if the image-generation
  call the handler then makes fails, the answer keeps status 200 and carries the generated
  message text, the usage metrics and the field \<open>error\<close> with the marker
  \<open>Image generation failed\<close>, and no image field.
\<close>

theorem image_failure_keeps_text:
  assumes "field b ''generateImage'' = Bool True"
    and "chat_completions_create openai (field b ''messages'') ''gpt-3.5-turbo'' = Inr c"
    and "ImagesGenerate m p n sz \<in> set (trace (handle_completion openai b))"
    and "images_generate openai m p n sz = Inl ie"
  shows "statusCode (res (handle_completion openai b)) = 200
       \<and> choices c \<noteq> []
       \<and> json (res (handle_completion openai b)) =
           Some [(''message'', text_value (content (message (hd (choices c))))),
                 (''error'', Str ''Image generation failed''),
                 (''usage'', usage c)]"
  using assms
  by (auto simp: handle_completion_def Let_def completion_catch_def image_catch_def
      first_choice_content_def first_image_url_def with_default_def ops
      split: list.splits sum.splits if_splits)

theorem image_failure_keeps_text_witness:
  "field image_request ''generateImage'' = Bool True
   \<and> chat_completions_create (stub_openai (Inr sample_completion) (Inl (ErrorObj ''policy'')))
       (field image_request ''messages'') ''gpt-3.5-turbo'' = Inr sample_completion
   \<and> ImagesGenerate ''dall-e-3'' ''a cat'' 1 ''1024x1024''
       \<in> set (trace (handle_completion (stub_openai (Inr sample_completion) (Inl (ErrorObj ''policy''))) image_request))
   \<and> images_generate (stub_openai (Inr sample_completion) (Inl (ErrorObj ''policy'')))
       ''dall-e-3'' ''a cat'' 1 ''1024x1024'' = Inl (ErrorObj ''policy'')
   \<and> statusCode (res (handle_completion (stub_openai (Inr sample_completion) (Inl (ErrorObj ''policy''))) image_request)) = 200
   \<and> json (res (handle_completion (stub_openai (Inr sample_completion) (Inl (ErrorObj ''policy''))) image_request)) =
       Some [(''message'', Str ''a cat''), (''error'', Str ''Image generation failed''),
             (''usage'', sample_usage)]"
proof -
  let ?api = "stub_openai (Inr sample_completion) (Inl (ErrorObj ''policy''))"
  have h1: "field image_request ''generateImage'' = Bool True"
    by (simp add: image_request_def field_def)
  have h2: "chat_completions_create ?api (field image_request ''messages'') ''gpt-3.5-turbo''
              = Inr sample_completion"
    by (simp add: stub_openai_def)
  have h3: "ImagesGenerate ''dall-e-3'' ''a cat'' 1 ''1024x1024''
              \<in> set (trace (handle_completion ?api image_request))"
    by (simp add: handle_completion_def Let_def first_choice_content_def image_catch_def
        prompt_of_def stubs ops)
  have h4: "images_generate ?api ''dall-e-3'' ''a cat'' 1 ''1024x1024'' = Inl (ErrorObj ''policy'')"
    by (simp add: stub_openai_def)
  show ?thesis
    using h1 h2 h3 h4 image_failure_keeps_text [OF h1 h2 h3 h4]
    by (simp add: sample_completion_def text_value_def)
qed

text \<open>
  C6, as the claim has it, fails: a chat call that returns a completion without any choice
  has succeeded, yet the handler finds no first choice to read, and answers through its
  \<open>catch\<close> block with status 500 and an error envelope instead of message and usage.
\<close>

theorem no_choice_gives_envelope:
  "field text_request ''generateImage'' = Undefined
   \<and> chat_completions_create (stub_openai (Inr no_choices) (Inr \<lparr>data = [sample_image]\<rparr>))
       (field text_request ''messages'') ''gpt-3.5-turbo'' = Inr no_choices
   \<and> statusCode (res (handle_completion
        (stub_openai (Inr no_choices) (Inr \<lparr>data = [sample_image]\<rparr>)) text_request)) = 500
   \<and> json (res (handle_completion
        (stub_openai (Inr no_choices) (Inr \<lparr>data = [sample_image]\<rparr>)) text_request)) =
       Some [(''error'', Str ''Error processing your request''),
             (''details'', Str (details (type_error ''message'')))]"
  by (simp add: handle_completion_def Let_def first_choice_content_def completion_catch_def
      stubs ops)

text \<open>
  C6, amended. With \<open>generateImage\<close> omitted or false and a chat call that returns at least
  one choice, the handler never calls the image provider and answers with status 200 and a
  body made of exactly the fields \<open>message\<close> (the text of the first choice) and \<open>usage\<close>.
\<close>

theorem no_image_unless_requested:
  assumes "field b ''generateImage'' = Undefined \<or> field b ''generateImage'' = Bool False"
    and "chat_completions_create openai (field b ''messages'') ''gpt-3.5-turbo'' = Inr c"
    and "choices c = ch # chs"
  shows "filter image_call (trace (handle_completion openai b)) = []
       \<and> statusCode (res (handle_completion openai b)) = 200
       \<and> json (res (handle_completion openai b)) =
           Some [(''message'', text_value (content (message ch))), (''usage'', usage c)]"
  using assms
  by (auto simp: handle_completion_def Let_def first_choice_content_def with_default_def ops)

theorem no_image_unless_requested_witness:
  "(field text_request ''generateImage'' = Undefined \<or> field text_request ''generateImage'' = Bool False)
   \<and> chat_completions_create (stub_openai (Inr sample_completion) (Inr \<lparr>data = [sample_image]\<rparr>))
       (field text_request ''messages'') ''gpt-3.5-turbo'' = Inr sample_completion
   \<and> choices sample_completion = [\<lparr>message = \<lparr>content = Some ''a cat''\<rparr>\<rparr>]
   \<and> filter image_call (trace (handle_completion
        (stub_openai (Inr sample_completion) (Inr \<lparr>data = [sample_image]\<rparr>)) text_request)) = []
   \<and> json (res (handle_completion
        (stub_openai (Inr sample_completion) (Inr \<lparr>data = [sample_image]\<rparr>)) text_request)) =
       Some [(''message'', Str ''a cat''), (''usage'', sample_usage)]"
proof -
  let ?api = "stub_openai (Inr sample_completion) (Inr \<lparr>data = [sample_image]\<rparr>)"
  have h1: "field text_request ''generateImage'' = Undefined
            \<or> field text_request ''generateImage'' = Bool False"
    by (simp add: text_request_def field_def)
  have h2: "chat_completions_create ?api (field text_request ''messages'') ''gpt-3.5-turbo''
              = Inr sample_completion"
    by (simp add: stub_openai_def)
  have h3: "choices sample_completion = [\<lparr>message = \<lparr>content = Some ''a cat''\<rparr>\<rparr>]"
    by (simp add: sample_completion_def)
  show ?thesis
    using h1 h2 h3 no_image_unless_requested [OF h1 h2 h3]
    by (simp add: sample_completion_def text_value_def)
qed

text \<open>
  C7, as the claim has it, fails in two places. With \<open>generateImage\<close> true and a chat call
  that returns a completion without any choice, the image provider is not called at all
  (the answer is the 500 envelope). And when the image call returns a response that holds
  no image, there is no URL to answer with: the body carries the marker
  \<open>Image generation failed\<close> in place of the image.
\<close>

theorem image_call_needs_choice_and_image:
  "field image_request ''generateImage'' = Bool True
   \<and> chat_completions_create (stub_openai (Inr no_choices) (Inr \<lparr>data = [sample_image]\<rparr>))
       (field image_request ''messages'') ''gpt-3.5-turbo'' = Inr no_choices
   \<and> filter image_call (trace (handle_completion
        (stub_openai (Inr no_choices) (Inr \<lparr>data = [sample_image]\<rparr>)) image_request)) = []
   \<and> statusCode (res (handle_completion
        (stub_openai (Inr no_choices) (Inr \<lparr>data = [sample_image]\<rparr>)) image_request)) = 500
   \<and> images_generate (stub_openai (Inr sample_completion) (Inr \<lparr>data = []\<rparr>))
       ''dall-e-3'' ''a cat'' 1 ''1024x1024'' = Inr \<lparr>data = []\<rparr>
   \<and> json (res (handle_completion
        (stub_openai (Inr sample_completion) (Inr \<lparr>data = []\<rparr>)) image_request)) =
       Some [(''message'', Str ''a cat''), (''error'', Str ''Image generation failed''),
             (''usage'', sample_usage)]"
  by (simp add: handle_completion_def Let_def first_choice_content_def first_image_url_def
      completion_catch_def image_catch_def prompt_of_def text_value_def stubs ops)

text \<open>
  C7, amended. With \<open>generateImage\<close> true and a chat call that returns at least one choice,
  the handler calls the image provider exactly once, for model \<open>dall-e-3\<close>, with the text of
  the first choice as the prompt (the empty string when that text is \<open>null\<close>), one image,
  size \<open>1024x1024\<close>. When that call returns at least one image, the answer has status 200
  and the fields \<open>message\<close>, \<open>image\<close> (the URL of the first image) and \<open>usage\<close>.
\<close>

theorem image_requested:
  assumes "field b ''generateImage'' = Bool True"
    and "chat_completions_create openai (field b ''messages'') ''gpt-3.5-turbo'' = Inr c"
    and "choices c = ch # chs"
  shows "filter image_call (trace (handle_completion openai b)) =
           [ImagesGenerate ''dall-e-3'' (case content (message ch) of None \<Rightarrow> [] | Some s \<Rightarrow> s)
              1 ''1024x1024'']
       \<and> (images_generate openai ''dall-e-3''
             (case content (message ch) of None \<Rightarrow> [] | Some s \<Rightarrow> s) 1 ''1024x1024'' = Inr r
            \<and> data r = im # ims \<longrightarrow>
          statusCode (res (handle_completion openai b)) = 200
          \<and> json (res (handle_completion openai b)) =
              Some [(''message'', text_value (content (message ch))), (''image'', url im),
                    (''usage'', usage c)])"
  using assms
  by (auto simp: handle_completion_def Let_def first_choice_content_def first_image_url_def
      image_catch_def prompt_of_def with_default_def ops split: sum.splits option.splits)

theorem image_requested_witness:
  "field image_request ''generateImage'' = Bool True
   \<and> chat_completions_create (stub_openai (Inr sample_completion) (Inr \<lparr>data = [sample_image]\<rparr>))
       (field image_request ''messages'') ''gpt-3.5-turbo'' = Inr sample_completion
   \<and> choices sample_completion = [\<lparr>message = \<lparr>content = Some ''a cat''\<rparr>\<rparr>]
   \<and> images_generate (stub_openai (Inr sample_completion) (Inr \<lparr>data = [sample_image]\<rparr>))
       ''dall-e-3'' ''a cat'' 1 ''1024x1024'' = Inr \<lparr>data = [sample_image]\<rparr>
   \<and> filter image_call (trace (handle_completion
        (stub_openai (Inr sample_completion) (Inr \<lparr>data = [sample_image]\<rparr>)) image_request)) =
       [ImagesGenerate ''dall-e-3'' ''a cat'' 1 ''1024x1024'']
   \<and> statusCode (res (handle_completion
        (stub_openai (Inr sample_completion) (Inr \<lparr>data = [sample_image]\<rparr>)) image_request)) = 200
   \<and> json (res (handle_completion
        (stub_openai (Inr sample_completion) (Inr \<lparr>data = [sample_image]\<rparr>)) image_request)) =
       Some [(''message'', Str ''a cat''), (''image'', Str ''https://img.example/1.png''),
             (''usage'', sample_usage)]"
proof -
  let ?api = "stub_openai (Inr sample_completion) (Inr \<lparr>data = [sample_image]\<rparr>)"
  have h1: "field image_request ''generateImage'' = Bool True"
    by (simp add: image_request_def field_def)
  have h2: "chat_completions_create ?api (field image_request ''messages'') ''gpt-3.5-turbo''
              = Inr sample_completion"
    by (simp add: stub_openai_def)
  have h3: "choices sample_completion = [\<lparr>message = \<lparr>content = Some ''a cat''\<rparr>\<rparr>]"
    by (simp add: sample_completion_def)
  have h4: "images_generate ?api ''dall-e-3'' ''a cat'' 1 ''1024x1024'' = Inr \<lparr>data = [sample_image]\<rparr>"
    by (simp add: stub_openai_def)
  have h5: "data \<lparr>data = [sample_image]\<rparr> = [sample_image]"
    by simp
  have u: "usage sample_completion = sample_usage"
    by (simp add: sample_completion_def)
  show ?thesis
    using h1 h2 h3 h4 h5 u
      image_requested [OF h1 h2 h3, of "\<lparr>data = [sample_image]\<rparr>" sample_image "[]"]
    by (simp add: text_value_def sample_image_def)
qed

text \<open>
  C10. For a request whose \<open>generateImage\<close> is absent or false, the handler with image
  generation and the text-only handler of \<open>index.ts\<close> do the same thing whatever the chat
  provider answers: the same response and the same provider calls. This common response
  is the 500 envelope when the chat call fails, and \<open>{message, usage}\<close> with status 200
  when it succeeds with a first choice.
\<close>

theorem completion_handlers_agree:
  assumes "field b ''generateImage'' = Undefined \<or> field b ''generateImage'' = Bool False"
  shows "handle_completion openai b = handle_completion_index openai b
       \<and> (chat_completions_create openai (field b ''messages'') ''gpt-3.5-turbo'' = Inl e \<longrightarrow>
            statusCode (res (handle_completion_index openai b)) = 500
            \<and> json (res (handle_completion_index openai b)) =
                Some [(''error'', Str ''Error processing your request''),
                      (''details'', Str (details e))])
       \<and> (chat_completions_create openai (field b ''messages'') ''gpt-3.5-turbo'' = Inr c
            \<and> choices c = ch # chs \<longrightarrow>
            statusCode (res (handle_completion_index openai b)) = 200
            \<and> json (res (handle_completion_index openai b)) =
                Some [(''message'', text_value (content (message ch))), (''usage'', usage c)])"
proof (intro conjI impI)
  show "handle_completion openai b = handle_completion_index openai b"
    using assms
    by (auto simp: handle_completion_def handle_completion_index_def Let_def with_default_def
        split: sum.splits)
next
  assume "chat_completions_create openai (field b ''messages'') ''gpt-3.5-turbo'' = Inl e"
  then show "statusCode (res (handle_completion_index openai b)) = 500"
    and "json (res (handle_completion_index openai b)) =
           Some [(''error'', Str ''Error processing your request''), (''details'', Str (details e))]"
    by (simp_all add: handle_completion_index_def Let_def completion_catch_def ops)
next
  assume "chat_completions_create openai (field b ''messages'') ''gpt-3.5-turbo'' = Inr c
          \<and> choices c = ch # chs"
  then show "statusCode (res (handle_completion_index openai b)) = 200"
    and "json (res (handle_completion_index openai b)) =
           Some [(''message'', text_value (content (message ch))), (''usage'', usage c)]"
    by (simp_all add: handle_completion_index_def Let_def first_choice_content_def ops)
qed

theorem completion_handlers_agree_witness:
  "(field text_request ''generateImage'' = Undefined \<or> field text_request ''generateImage'' = Bool False)
   \<and> chat_completions_create (stub_openai (Inr sample_completion) (Inl (ErrorObj ''policy'')))
       (field text_request ''messages'') ''gpt-3.5-turbo'' = Inr sample_completion
   \<and> choices sample_completion = [\<lparr>message = \<lparr>content = Some ''a cat''\<rparr>\<rparr>]
   \<and> handle_completion (stub_openai (Inr sample_completion) (Inl (ErrorObj ''policy''))) text_request
       = handle_completion_index (stub_openai (Inr sample_completion) (Inl (ErrorObj ''policy''))) text_request
   \<and> json (res (handle_completion_index
        (stub_openai (Inr sample_completion) (Inl (ErrorObj ''policy''))) text_request)) =
       Some [(''message'', Str ''a cat''), (''usage'', sample_usage)]
   \<and> chat_completions_create (stub_openai (Inl (ErrorObj ''quota exceeded'')) (Inl (ErrorObj ''policy'')))
       (field text_request ''messages'') ''gpt-3.5-turbo'' = Inl (ErrorObj ''quota exceeded'')
   \<and> handle_completion (stub_openai (Inl (ErrorObj ''quota exceeded'')) (Inl (ErrorObj ''policy''))) text_request
       = handle_completion_index (stub_openai (Inl (ErrorObj ''quota exceeded'')) (Inl (ErrorObj ''policy''))) text_request
   \<and> statusCode (res (handle_completion_index
        (stub_openai (Inl (ErrorObj ''quota exceeded'')) (Inl (ErrorObj ''policy''))) text_request)) = 500"
proof -
  let ?ok = "stub_openai (Inr sample_completion) (Inl (ErrorObj ''policy''))"
  let ?ko = "stub_openai (Inl (ErrorObj ''quota exceeded'')) (Inl (ErrorObj ''policy''))"
  have h1: "field text_request ''generateImage'' = Undefined
            \<or> field text_request ''generateImage'' = Bool False"
    by (simp add: text_request_def field_def)
  have h2: "chat_completions_create ?ok (field text_request ''messages'') ''gpt-3.5-turbo''
              = Inr sample_completion"
    by (simp add: stub_openai_def)
  have h3: "choices sample_completion = [\<lparr>message = \<lparr>content = Some ''a cat''\<rparr>\<rparr>]"
    by (simp add: sample_completion_def)
  have h4: "chat_completions_create ?ko (field text_request ''messages'') ''gpt-3.5-turbo''
              = Inl (ErrorObj ''quota exceeded'')"
    by (simp add: stub_openai_def)
  show ?thesis
    using h1 h2 h3 h4
      completion_handlers_agree [OF h1, of ?ok "ErrorObj ''none''" sample_completion
        "\<lparr>message = \<lparr>content = Some ''a cat''\<rparr>\<rparr>" "[]"]
      completion_handlers_agree [OF h1, of ?ko "ErrorObj ''quota exceeded''" sample_completion
        "\<lparr>message = \<lparr>content = Some ''a cat''\<rparr>\<rparr>" "[]"]
    by (simp add: text_value_def sample_completion_def)
qed

section \<open>The speech route\<close>

text \<open>
  C8. For a request with non-empty text for which the session set-up goes through, the
  synthesizer is built from a configuration whose voice name is
  \<open>en-US-JennyMultilingualNeural\<close> when the request has no \<open>voice\<close> field, and the value
  of that field when it has one; the text is then handed to that synthesizer.
\<close>

theorem tts_voice_configured:
  assumes "truthy (field b ''text'')"
    and "fromSubscription sdk (AZURE_SPEECH_KEY env) (AZURE_SPEECH_REGION env) = Inr config"
  shows "take 4 (trace (fst (handle_tts sdk env b))) =
           [FromSubscription (AZURE_SPEECH_KEY env) (AZURE_SPEECH_REGION env),
            ResSet [(''Content-Type'', ''audio/wav''), (''Transfer-Encoding'', ''chunked'')],
            NewSpeechSynthesizer (config\<lparr>speechSynthesisVoiceName :=
               (if field b ''voice'' = Undefined then Str ''en-US-JennyMultilingualNeural''
                else field b ''voice'')\<rparr>),
            SpeakTextAsync (field b ''text'')]"
  using assms
  by (auto simp: handle_tts_def Let_def with_default_def on_result_def on_error_def ops
      split: synth_outcome.splits option.splits)

theorem tts_voice_configured_witness:
  "truthy (field tts_request ''text'')
   \<and> fromSubscription (stub_speech (Failed ''canceled'')) (AZURE_SPEECH_KEY sample_env)
        (AZURE_SPEECH_REGION sample_env) = Inr (sample_config (Str ''key'') (Str ''westeurope''))
   \<and> take 4 (trace (fst (handle_tts (stub_speech (Failed ''canceled'')) sample_env tts_request))) =
       [FromSubscription (Str ''key'') (Str ''westeurope''),
        ResSet [(''Content-Type'', ''audio/wav''), (''Transfer-Encoding'', ''chunked'')],
        NewSpeechSynthesizer \<lparr>subscriptionKey = Str ''key'', region = Str ''westeurope'',
                              speechSynthesisVoiceName = Str ''en-US-JennyMultilingualNeural''\<rparr>,
        SpeakTextAsync (Str ''hi'')]
   \<and> truthy (field tts_request_voice ''text'')
   \<and> take 4 (trace (fst (handle_tts (stub_speech (Failed ''canceled'')) sample_env tts_request_voice))) =
       [FromSubscription (Str ''key'') (Str ''westeurope''),
        ResSet [(''Content-Type'', ''audio/wav''), (''Transfer-Encoding'', ''chunked'')],
        NewSpeechSynthesizer \<lparr>subscriptionKey = Str ''key'', region = Str ''westeurope'',
                              speechSynthesisVoiceName = Str ''pt-BR-FranciscaNeural''\<rparr>,
        SpeakTextAsync (Str ''hi'')]"
proof -
  let ?sdk = "stub_speech (Failed ''canceled'')"
  have h1: "truthy (field tts_request ''text'')"
    by (simp add: tts_request_def field_def)
  have h1': "truthy (field tts_request_voice ''text'')"
    by (simp add: tts_request_voice_def field_def)
  have h2: "fromSubscription ?sdk (AZURE_SPEECH_KEY sample_env) (AZURE_SPEECH_REGION sample_env)
              = Inr (sample_config (Str ''key'') (Str ''westeurope''))"
    by (simp add: stub_speech_def sample_env_def)
  have f: "field tts_request ''voice'' = Undefined" "field tts_request ''text'' = Str ''hi''"
    "field tts_request_voice ''voice'' = Str ''pt-BR-FranciscaNeural''"
    "field tts_request_voice ''text'' = Str ''hi''"
    by (simp_all add: tts_request_def tts_request_voice_def field_def)
  show ?thesis
    using h1 h1' h2 tts_voice_configured [OF h1 h2] tts_voice_configured [OF h1' h2]
    by (simp add: f sample_config_def sample_env_def)
qed

text \<open>
  C9. For a request with non-empty text for which the provider returns audio data, the
  handler sets the headers \<open>Content-Type: audio/wav\<close> and \<open>Transfer-Encoding: chunked\<close>,
  writes exactly the bytes the provider returned, ends the response and closes the
  synthesizer, the write coming first; the status stays 200, no JSON body is sent and the
  handler's promise is fulfilled.
\<close>

theorem tts_audio_streamed:
  assumes "truthy (field b ''text'')"
    and "fromSubscription sdk (AZURE_SPEECH_KEY env) (AZURE_SPEECH_REGION env) = Inr config"
    and "speakTextAsync sdk
           (config\<lparr>speechSynthesisVoiceName :=
              with_default (Str ''en-US-JennyMultilingualNeural'') (field b ''voice'')\<rparr>)
           (field b ''text'') = Completed (Some r)"
    and "audioData r = Some bs"
  shows "headers (res (fst (handle_tts sdk env b))) ''Content-Type'' = Some ''audio/wav''
       \<and> headers (res (fst (handle_tts sdk env b))) ''Transfer-Encoding'' = Some ''chunked''
       \<and> written (res (fst (handle_tts sdk env b))) = bs
       \<and> statusCode (res (fst (handle_tts sdk env b))) = 200
       \<and> finished (res (fst (handle_tts sdk env b)))
       \<and> json (res (fst (handle_tts sdk env b))) = None
       \<and> drop 4 (trace (fst (handle_tts sdk env b))) = [ResWrite bs, ResEnd, SynthesizerClose]
       \<and> snd (handle_tts sdk env b) = Fulfilled"
  using assms
  by (simp add: handle_tts_def Let_def on_result_def ops)

theorem tts_audio_streamed_witness:
  "truthy (field tts_request ''text'')
   \<and> fromSubscription (stub_speech (Completed (Some \<lparr>audioData = Some stub_audio\<rparr>)))
        (AZURE_SPEECH_KEY sample_env) (AZURE_SPEECH_REGION sample_env)
       = Inr (sample_config (Str ''key'') (Str ''westeurope''))
   \<and> audioData \<lparr>audioData = Some stub_audio\<rparr> = Some stub_audio
   \<and> headers (res (fst (handle_tts (stub_speech (Completed (Some \<lparr>audioData = Some stub_audio\<rparr>)))
        sample_env tts_request))) ''Content-Type'' = Some ''audio/wav''
   \<and> written (res (fst (handle_tts (stub_speech (Completed (Some \<lparr>audioData = Some stub_audio\<rparr>)))
        sample_env tts_request))) = stub_audio
   \<and> statusCode (res (fst (handle_tts (stub_speech (Completed (Some \<lparr>audioData = Some stub_audio\<rparr>)))
        sample_env tts_request))) = 200
   \<and> drop 4 (trace (fst (handle_tts (stub_speech (Completed (Some \<lparr>audioData = Some stub_audio\<rparr>)))
        sample_env tts_request))) = [ResWrite stub_audio, ResEnd, SynthesizerClose]"
proof -
  let ?sdk = "stub_speech (Completed (Some \<lparr>audioData = Some stub_audio\<rparr>))"
  let ?cfg = "sample_config (Str ''key'') (Str ''westeurope'')"
  have h1: "truthy (field tts_request ''text'')"
    by (simp add: tts_request_def field_def)
  have h2: "fromSubscription ?sdk (AZURE_SPEECH_KEY sample_env) (AZURE_SPEECH_REGION sample_env)
              = Inr ?cfg"
    by (simp add: stub_speech_def sample_env_def)
  have h3: "speakTextAsync ?sdk
              (?cfg\<lparr>speechSynthesisVoiceName :=
                 with_default (Str ''en-US-JennyMultilingualNeural'') (field tts_request ''voice'')\<rparr>)
              (field tts_request ''text'') = Completed (Some \<lparr>audioData = Some stub_audio\<rparr>)"
    by (simp add: stub_speech_def)
  have h4: "audioData \<lparr>audioData = Some stub_audio\<rparr> = Some stub_audio"
    by simp
  show ?thesis
    using h1 h2 h4 tts_audio_streamed [OF h1 h2 h3 h4] by simp
qed

text \<open>
  What the \<open>catch\<close> block of the speech handler does reach: a failure thrown while the
  session is set up is answered with status 500 and the error envelope, and the handler's
  promise is fulfilled.
\<close>

lemma tts_setup_failure_enveloped:
  assumes "truthy (field b ''text'')"
    and "fromSubscription sdk (AZURE_SPEECH_KEY env) (AZURE_SPEECH_REGION env) = Inl e"
  shows "statusCode (res (fst (handle_tts sdk env b))) = 500"
    and "json (res (fst (handle_tts sdk env b))) =
           Some [(''error'', Str ''Error processing your request''), (''details'', Str (details e))]"
    and "snd (handle_tts sdk env b) = Fulfilled"
  using assms
  by (simp_all add: handle_tts_def Let_def tts_catch_def ops)

text \<open>
  What it does not reach: once the session is set up, a synthesis that completes without
  audio, or calls the error callback, rejects the promise that the handler has already
  returned. The handler's promise is rejected, no status and no body are set, the response
  is left open, and the synthesizer is not closed.
\<close>

lemma tts_rejection_not_caught:
  assumes "truthy (field b ''text'')"
    and "fromSubscription sdk (AZURE_SPEECH_KEY env) (AZURE_SPEECH_REGION env) = Inr config"
    and "speakTextAsync sdk
           (config\<lparr>speechSynthesisVoiceName :=
              with_default (Str ''en-US-JennyMultilingualNeural'') (field b ''voice'')\<rparr>)
           (field b ''text'') = out"
    and "out = Completed None \<or> out = Completed (Some \<lparr>audioData = None\<rparr>) \<or> out = Failed err"
  shows "snd (handle_tts sdk env b) \<noteq> Fulfilled"
    and "json (res (fst (handle_tts sdk env b))) = None"
    and "statusCode (res (fst (handle_tts sdk env b))) = 200"
    and "\<not> finished (res (fst (handle_tts sdk env b)))"
    and "SynthesizerClose \<notin> set (trace (fst (handle_tts sdk env b)))"
  using assms
  by (auto simp: handle_tts_def Let_def on_result_def on_error_def ops)

text \<open>
  C1, on the code. The request \<open>{text: "hi"}\<close> with a provider that completes without
  audio data: the handler's promise is rejected with \<open>No audio data generated\<close>, the status
  is still 200, no JSON body has been sent and the response has not been ended. The same
  request with a provider that calls the error callback: the promise is rejected with the
  provider's error, and again nothing is sent. The claim asks for status 500, an
  \<open>{error, details}\<close> body and no failure leaving the handler.
\<close>

theorem tts_failure_escapes_catch:
  "snd (handle_tts (stub_speech (Completed (Some \<lparr>audioData = None\<rparr>))) sample_env tts_request)
     = Rejected (ErrorObj ''No audio data generated'')
   \<and> statusCode (res (fst (handle_tts (stub_speech (Completed (Some \<lparr>audioData = None\<rparr>)))
        sample_env tts_request))) = 200
   \<and> json (res (fst (handle_tts (stub_speech (Completed (Some \<lparr>audioData = None\<rparr>)))
        sample_env tts_request))) = None
   \<and> \<not> headersSent (res (fst (handle_tts (stub_speech (Completed (Some \<lparr>audioData = None\<rparr>)))
        sample_env tts_request)))
   \<and> \<not> finished (res (fst (handle_tts (stub_speech (Completed (Some \<lparr>audioData = None\<rparr>)))
        sample_env tts_request)))
   \<and> snd (handle_tts (stub_speech (Failed ''synthesis canceled'')) sample_env tts_request)
     = Rejected (Thrown (Str ''synthesis canceled''))
   \<and> statusCode (res (fst (handle_tts (stub_speech (Failed ''synthesis canceled''))
        sample_env tts_request))) = 200
   \<and> json (res (fst (handle_tts (stub_speech (Failed ''synthesis canceled''))
        sample_env tts_request))) = None"
  by (simp add: handle_tts_def Let_def on_result_def on_error_def stubs ops)

text \<open>
  C4, on the code. The request \<open>{text: "hi"}\<close> with a provider that calls the error
  callback, and with one that completes without audio data: a synthesizer is created and
  the text is handed to it, and that is the last call made on the provider. The
  synthesizer is never closed. The claim asks for it to be closed whatever the outcome.
\<close>

theorem tts_failure_leaves_session_open:
  "trace (fst (handle_tts (stub_speech (Failed ''synthesis canceled'')) sample_env tts_request)) =
     [FromSubscription (Str ''key'') (Str ''westeurope''),
      ResSet [(''Content-Type'', ''audio/wav''), (''Transfer-Encoding'', ''chunked'')],
      NewSpeechSynthesizer \<lparr>subscriptionKey = Str ''key'', region = Str ''westeurope'',
                            speechSynthesisVoiceName = Str ''en-US-JennyMultilingualNeural''\<rparr>,
      SpeakTextAsync (Str ''hi'')]
   \<and> trace (fst (handle_tts (stub_speech (Completed (Some \<lparr>audioData = None\<rparr>))) sample_env tts_request)) =
     [FromSubscription (Str ''key'') (Str ''westeurope''),
      ResSet [(''Content-Type'', ''audio/wav''), (''Transfer-Encoding'', ''chunked'')],
      NewSpeechSynthesizer \<lparr>subscriptionKey = Str ''key'', region = Str ''westeurope'',
                            speechSynthesisVoiceName = Str ''en-US-JennyMultilingualNeural''\<rparr>,
      SpeakTextAsync (Str ''hi'')]"
  by (simp add: handle_tts_def Let_def on_result_def on_error_def stubs ops)

end
